theory Spec2Isabelle
  imports Complex_Main
begin

section \<open>JavaScript values\<close>

text \<open>
  A JavaScript value is a primitive or a reference to an object. \<open>JRef a\<close> is the
  reference to the object at address \<open>a\<close>: the strict comparison \<open>!==\<close> of two
  references compares addresses, so \<open>!==\<close> is inequality of \<open>jsval\<close>.
\<close>

datatype jsval = Undefined | Null | JBool bool | JNum int | JStr string | JRef nat

fun truthy :: "jsval \<Rightarrow> bool" where
  "truthy Undefined = False"
| "truthy Null = False"
| "truthy (JBool b) = b"
| "truthy (JNum n) = (n \<noteq> 0)"
| "truthy (JStr s) = (s \<noteq> [])"
| "truthy (JRef a) = True"

text \<open>
  What a call of a selector returns, and what a property of a props object holds:
  \<open>Val v\<close>, a value that exists apart from the call (a primitive, or the reference to
  an object such as a part of a store's state), or \<open>New\<close>, an object built for the
  occasion. An object just built is different from every object that existed before. So
  for a result just obtained and a result remembered from an earlier call, the strict
  comparison \<open>result !== lastResult\<close> is \<open>differs result lastResult\<close>: it holds
  whenever the result is a new object, and is inequality of values otherwise.
\<close>

datatype res = Val jsval | New

fun differs :: "res \<Rightarrow> res \<Rightarrow> bool" where
  "differs New lastResult = True"
| "differs (Val v) lastResult = (lastResult \<noteq> Val v)"

fun truthy_res :: "res \<Rightarrow> bool" where
  "truthy_res (Val v) = truthy v"
| "truthy_res New = True"

text \<open>An optional string argument (\<open>?string\<close>): absent, or a string; the empty string is falsy.\<close>

definition truthy_str :: "string option \<Rightarrow> bool" where
  "truthy_str s = (case s of None \<Rightarrow> False | Some x \<Rightarrow> x \<noteq> [])"

fun nth_opt :: "'a list \<Rightarrow> nat \<Rightarrow> 'a option" where
  "nth_opt [] i = None"
| "nth_opt (x # xs) 0 = Some x"
| "nth_opt (x # xs) (Suc i) = nth_opt xs i"


section \<open>The store library\<close>

text \<open>
  \<open>createStore\<close> belongs to the reducer/store library the module is built on. A store
  holds its reducer and its current state; the initial state is the reducer applied to
  \<open>undefined\<close> and the library's initialisation action. Every store of the registry has
  exactly one library-level listener, \<open>globalListener\<close> (\<open>registerReducer\<close>).
  Reducers and action creators are pure functions. A selector is a function of the state
  and the arguments it is given: on each of them it returns a value they determine, or
  builds a new object. \<open>returning f\<close> is the selector that returns the value \<open>f\<close>
  computes, as a selector with a boolean result does. An action is a value like any
  other; the initialisation action is represented by its type.
\<close>

type_synonym reducer = "jsval \<Rightarrow> jsval \<Rightarrow> jsval"
type_synonym selector = "jsval \<Rightarrow> jsval list \<Rightarrow> res"
type_synonym action_creator = "jsval list \<Rightarrow> jsval"


record redux_store =
  currentReducer :: reducer
  currentState :: jsval

definition ActionTypes_INIT :: jsval where
  "ActionTypes_INIT = JStr ''@@redux/INIT''"

definition createStore :: "reducer \<Rightarrow> redux_store" where
  "createStore r = \<lparr>currentReducer = r, currentState = r Undefined ActionTypes_INIT\<rparr>"

section \<open>The data module: registry state\<close>

text \<open>
  A listener passed to \<open>subscribe\<close> is a function of the caller. \<open>External c\<close> is a
  function whose body lies outside the module: the model records each of its invocations
  with the arguments it received, and takes it not to call back into the module.
  \<open>CollapseSidebar\<close> is the arrow function of the edit-post store wiring,
  \<open>(isSmall) => { if (isSmall) dispatch('core/edit-post').closeGeneralSidebar() }\<close>.
  \<open>RunSelection cid\<close> is the bound method \<open>this.runSelection\<close> of the component
  \<open>cid\<close> made by \<open>withSelect\<close>.
\<close>

datatype callback = External nat | CollapseSidebar | RunSelection nat

text \<open>
  A function reference held in the listener list: a caller's function, or a wrapper
  created by \<open>when\<close> or \<open>whenWith\<close> inside \<open>subscribe\<close>. Each wrapper is a fresh
  function object, identified by the address of its closure.
\<close>

datatype fn = Callback callback | Wrapper nat

text \<open>
  The closures of \<open>subscribe\<close>. \<open>When sid ifTrueFn\<close> is
  \<open>when(predicate)(listener)\<close>, whose predicate closes over \<open>getState\<close> of the store
  object \<open>sid\<close> and over the variable \<open>lastState\<close>. \<open>WhenWith reducerKey selectorName
  selectorArgs ifTrueFn\<close> is \<open>whenWith(predicate)(listener)\<close>, whose predicate closes
  over \<open>getResult\<close> and over the variable \<open>lastResult\<close>. The constants of a closure
  never change; its one variable lives in the world at the closure's address, \<open>lastState\<close>
  in \<open>captured\<close> and \<open>lastResult\<close> in \<open>captured_result\<close>.
\<close>

datatype closure =
    When nat fn
  | WhenWith string string "jsval list" fn

datatype error = TypeError

text \<open>
  The components made by \<open>withSelect(mapStateToProps)\<close>. A props object and a
  component's state are objects with finitely many own properties, held as the list of
  the properties in insertion order, each name once. \<open>mapStateToProps(select, props)\<close>
  is a function of the caller: it reads the registry through \<open>select\<close>, of which it
  sees what each call \<open>select(reducerKey)[selectorName](...args)\<close> returns, \<open>None\<close>
  for a call that throws; its own result is \<open>None\<close> when it throws. Its second
  argument is a props object, or whatever other value \<open>runSelection\<close> was called with.
  \<open>setState_calls\<close> counts the calls of \<open>setState\<close>, each of which schedules a
  render, and \<open>ws_unsubscribe\<close> is the field \<open>this.unsubscribe\<close>.
\<close>

type_synonym object = "(string \<times> res) list"

datatype props = Props object | Argument res

type_synonym selection = "string \<Rightarrow> string \<Rightarrow> jsval list \<Rightarrow> res option"

record with_select =
  mapStateToProps :: "selection \<Rightarrow> props \<Rightarrow> object option"
  ws_props :: object
  ws_state :: object
  setState_calls :: nat
  ws_unsubscribe :: "fn option"

record world =
  heap :: "redux_store list"
  stores :: "string \<rightharpoonup> nat"
  selectors :: "string \<rightharpoonup> (string \<rightharpoonup> nat option \<times> selector)"
  actions :: "string \<rightharpoonup> (string \<rightharpoonup> nat option \<times> action_creator)"
  listeners :: "fn list"
  closures :: "closure list"
  captured :: "nat \<Rightarrow> jsval"
  captured_result :: "nat \<Rightarrow> res"
  components :: "with_select list"
  calls :: "(nat \<times> res list) list"
  dispatched :: "(nat \<times> jsval) list"

text \<open>
  \<open>heap\<close> holds the store objects, \<open>stores\<close>, \<open>selectors\<close>, \<open>actions\<close> and
  \<open>listeners\<close> are the module constants of the same names, \<open>closures\<close> holds the
  wrappers, \<open>captured\<close> and \<open>captured_result\<close> the variable each one assigns,
  \<open>components\<close> holds the mounted components of \<open>withSelect\<close>, \<open>calls\<close> is the
  record of invocations of external functions and \<open>dispatched\<close> the record of actions
  passed to each store's \<open>dispatch\<close>.
  A bound selector or action keeps the \<open>store\<close> constant it captured, which is
  \<open>undefined\<close> when no store was registered under the key.
\<close>

definition initial_world :: world where
  "initial_world = \<lparr>heap = [], stores = Map.empty, selectors = Map.empty, actions = Map.empty,
     listeners = [], closures = [], captured = (\<lambda>a. Undefined),
     captured_result = (\<lambda>a. Val Undefined), components = [], calls = [], dispatched = []\<rparr>"

datatype 'a outcome = Return 'a world | Throw error world

fun world_of :: "'a outcome \<Rightarrow> world" where
  "world_of (Return x w) = w"
| "world_of (Throw e w) = w"

definition getState :: "world \<Rightarrow> nat \<Rightarrow> jsval option" where
  "getState w sid = map_option currentState (nth_opt (heap w) sid)"

section \<open>Registration\<close>

text \<open>The environment has no devtools extension: \<open>enhancers\<close> stays empty.\<close>

definition registerReducer :: "string \<Rightarrow> reducer \<Rightarrow> world \<Rightarrow> nat \<times> world" where
  "registerReducer reducerKey r w =
     (let sid = length (heap w)
      in (sid, w\<lparr>heap := heap w @ [createStore r], stores := (stores w)(reducerKey \<mapsto> sid)\<rparr>))"

definition registerSelectors :: "string \<Rightarrow> (string \<rightharpoonup> selector) \<Rightarrow> world \<Rightarrow> world" where
  "registerSelectors reducerKey newSelectors w =
     (let store = stores w reducerKey;
          createStateSelector = (\<lambda>sel. (store, sel))
      in w\<lparr>selectors := (selectors w)(reducerKey \<mapsto> (\<lambda>name. map_option createStateSelector (newSelectors name)))\<rparr>)"

definition registerActions :: "string \<Rightarrow> (string \<rightharpoonup> action_creator) \<Rightarrow> world \<Rightarrow> world" where
  "registerActions reducerKey newActions w =
     (let store = stores w reducerKey;
          createBoundAction = (\<lambda>act. (store, act))
      in w\<lparr>actions := (actions w)(reducerKey \<mapsto> (\<lambda>name. map_option createBoundAction (newActions name)))\<rparr>)"

record options =
  opt_reducer :: "reducer option"
  opt_actions :: "(string \<rightharpoonup> action_creator) option"
  opt_selectors :: "(string \<rightharpoonup> selector) option"

definition registerStore :: "string \<Rightarrow> options \<Rightarrow> world \<Rightarrow> nat outcome" where
  "registerStore reducerKey opts w =
     (case opt_reducer opts of
        None \<Rightarrow> Throw TypeError w
      | Some r \<Rightarrow>
          (let (store, w1) = registerReducer reducerKey r w;
               w2 = (case opt_actions opts of None \<Rightarrow> w1 | Some a \<Rightarrow> registerActions reducerKey a w1);
               w3 = (case opt_selectors opts of None \<Rightarrow> w2 | Some s \<Rightarrow> registerSelectors reducerKey s w2)
           in Return store w3))"

section \<open>Selectors\<close>

text \<open>
  \<open>select(reducerKey)\<close> returns the object of bound selectors, and
  \<open>select(reducerKey)[selectorName](...args)\<close> calls one of them: a missing object or
  property, or a bound selector whose captured store is \<open>undefined\<close>, is a TypeError.
\<close>

definition select :: "string \<Rightarrow> world \<Rightarrow> (string \<rightharpoonup> nat option \<times> selector) option" where
  "select reducerKey w = selectors w reducerKey"

definition select_call :: "string \<Rightarrow> string \<Rightarrow> jsval list \<Rightarrow> world \<Rightarrow> res outcome" where
  "select_call reducerKey selectorName args w =
     (case select reducerKey w of
        None \<Rightarrow> Throw TypeError w
      | Some bound \<Rightarrow>
          (case bound selectorName of
             None \<Rightarrow> Throw TypeError w
           | Some (store, sel) \<Rightarrow>
               (case store of
                  None \<Rightarrow> Throw TypeError w
                | Some sid \<Rightarrow>
                    (case getState w sid of
                       None \<Rightarrow> Throw TypeError w
                     | Some state \<Rightarrow> Return (sel state args) w))))"

section \<open>Subscription\<close>

datatype selector_spec = SelName string | SelArray string "jsval list"

fun truthy_sel :: "selector_spec option \<Rightarrow> bool" where
  "truthy_sel None = False"
| "truthy_sel (Some (SelName n)) = (n \<noteq> [])"
| "truthy_sel (Some (SelArray n as)) = True"

fun castArray :: "selector_spec \<Rightarrow> string \<times> jsval list" where
  "castArray (SelName n) = (n, [])"
| "castArray (SelArray n as) = (n, as)"

text \<open>
  \<open>subscribe\<close> with its three normalised arguments: the loop of the source pads the
  missing leading arguments with \<open>null\<close>, so \<open>subscribe(listener)\<close> is
  \<open>subscribe None None listener\<close> and \<open>subscribe(reducerKey, listener)\<close> is
  \<open>subscribe (Some reducerKey) None listener\<close>. The value returned stands for the
  \<open>unsubscribe\<close> closure: it is the function reference that was pushed.
\<close>

definition subscribe :: "string option \<Rightarrow> selector_spec option \<Rightarrow> callback \<Rightarrow> world \<Rightarrow> fn outcome" where
  "subscribe reducerKey selector listener w =
     (case (if truthy_str reducerKey then reducerKey else None) of
        None \<Rightarrow> Return (Callback listener) (w\<lparr>listeners := listeners w @ [Callback listener]\<rparr>)
      | Some key \<Rightarrow>
          (case stores w key of
             None \<Rightarrow> Throw TypeError w
           | Some sid \<Rightarrow>
               (case getState w sid of
                  None \<Rightarrow> Throw TypeError w
                | Some lastState \<Rightarrow>
                    (let listener1 = Wrapper (length (closures w));
                         w1 = w\<lparr>closures := closures w @ [When sid (Callback listener)],
                                captured := (captured w)(length (closures w) := lastState)\<rparr>
                     in if truthy_sel selector then
                          (case selector of
                             None \<Rightarrow> Throw TypeError w
                           | Some spec \<Rightarrow>
                               (let (selectorName, selectorArgs) = castArray spec
                                in case select_call key selectorName selectorArgs w1 of
                                     Throw e w' \<Rightarrow> Throw e w
                                   | Return lastResult w' \<Rightarrow>
                                       (let listener2 = Wrapper (length (closures w1));
                                            w2 = w1\<lparr>closures := closures w1 @
                                                   [WhenWith key selectorName selectorArgs listener1],
                                                 captured_result :=
                                                   (captured_result w1)(length (closures w1) := lastResult)\<rparr>
                                        in Return listener2 (w2\<lparr>listeners := listeners w2 @ [listener2]\<rparr>))))
                        else Return listener1 (w1\<lparr>listeners := listeners w1 @ [listener1]\<rparr>)))))"

text \<open>
  The argument list of \<open>subscribe\<close> and its normalisation: while the list has fewer than
  three entries, \<open>splice(-1, 0, null)\<close> inserts \<open>null\<close> before the last entry, or at
  the front of the empty list. \<open>subscribe_args\<close> is \<open>subscribe\<close> on an argument list
  whose entries have the documented types; \<open>None\<close> stands for any other list.
\<close>

datatype arg = ReducerKey string | Selector selector_spec | Listener callback

definition splice_null :: "'a option list \<Rightarrow> 'a option list" where
  "splice_null args = (let start = length args - 1 in take start args @ None # drop start args)"

function normalize :: "'a option list \<Rightarrow> 'a option list" where
  "normalize args = (if length args < 3 then normalize (splice_null args) else args)"
  by pat_completeness auto
termination
  by (relation "measure (\<lambda>args. 3 - length args)") (auto simp add: splice_null_def Let_def)

fun arg_key :: "arg option \<Rightarrow> string option option" where
  "arg_key None = Some None"
| "arg_key (Some (ReducerKey k)) = Some (Some k)"
| "arg_key (Some a) = None"

fun arg_selector :: "arg option \<Rightarrow> selector_spec option option" where
  "arg_selector None = Some None"
| "arg_selector (Some (Selector spec)) = Some (Some spec)"
| "arg_selector (Some a) = None"

definition subscribe_args :: "arg option list \<Rightarrow> world \<Rightarrow> fn outcome option" where
  "subscribe_args args w =
     (case normalize args of
        [a1, a2, Some (Listener listener)] \<Rightarrow>
          (case (arg_key a1, arg_selector a2) of
             (Some reducerKey, Some selector) \<Rightarrow> Some (subscribe reducerKey selector listener w)
           | _ \<Rightarrow> None)
      | _ \<Rightarrow> None)"

definition without :: "'a list \<Rightarrow> 'a \<Rightarrow> 'a list" where
  "without xs x = filter (\<lambda>y. y \<noteq> x) xs"

definition unsubscribe :: "fn \<Rightarrow> world \<Rightarrow> world" where
  "unsubscribe listener w = w\<lparr>listeners := without (listeners w) listener\<rparr>"

section \<open>The component wrapper of withSelect\<close>

text \<open>
  \<open>isEqualShallow\<close> is the function of the package \<open>is-equal-shallow\<close> that the module
  imports, applied to two objects: it goes through the properties of its second argument
  and answers false at the first whose value is not a primitive, or which its first
  argument lacks or holds with another value; then it compares the numbers of
  properties. A value is primitive when it is neither an object nor a function. In both
  calls of the module the first argument is the newer object.
\<close>

fun isPrimitive :: "res \<Rightarrow> bool" where
  "isPrimitive (Val (JRef a)) = False"
| "isPrimitive (Val v) = True"
| "isPrimitive New = False"

definition isEqualShallow :: "object \<Rightarrow> object \<Rightarrow> bool" where
  "isEqualShallow a b =
     (list_all (\<lambda>(key, v). isPrimitive v \<and>
                 (case map_of a key of None \<Rightarrow> False | Some x \<Rightarrow> \<not> differs x v)) b \<and>
      length a = length b)"


text \<open>
  \<open>setState\<close> merges the given object into the component's state, property by
  property, and schedules a render.
\<close>

fun put :: "string \<Rightarrow> res \<Rightarrow> object \<Rightarrow> object" where
  "put key v [] = [(key, v)]"
| "put key v ((k, x) # ps) = (if k = key then (key, v) # ps else (k, x) # put key v ps)"

fun assign :: "object \<Rightarrow> object \<Rightarrow> object" where
  "assign target [] = target"
| "assign target ((key, v) # source) = assign (put key v target) source"

definition setState :: "object \<Rightarrow> with_select \<Rightarrow> with_select" where
  "setState newState c =
     c\<lparr>ws_state := assign (ws_state c) newState, setState_calls := Suc (setState_calls c)\<rparr>"

text \<open>
  \<open>runSelection(props = this.props)\<close>: the argument is \<open>None\<close> when it is absent or
  \<open>undefined\<close>. \<open>select_view w\<close> is what \<open>select\<close> shows of the registry \<open>w\<close>.
\<close>

definition select_view :: "world \<Rightarrow> selection" where
  "select_view w reducerKey selectorName args =
     (case select_call reducerKey selectorName args w of
        Return result w' \<Rightarrow> Some result
      | Throw e w' \<Rightarrow> None)"

definition runSelection :: "selection \<Rightarrow> props option \<Rightarrow> with_select \<Rightarrow> with_select option" where
  "runSelection select' arg c =
     (let props = (case arg of None \<Rightarrow> Props (ws_props c) | Some p \<Rightarrow> p)
      in case mapStateToProps c select' props of
           None \<Rightarrow> None
         | Some newState \<Rightarrow>
             Some (if \<not> isEqualShallow newState (ws_state c) then setState newState c else c))"

definition runSelection_call :: "nat \<Rightarrow> props option \<Rightarrow> world \<Rightarrow> unit outcome" where
  "runSelection_call cid arg w =
     (case nth_opt (components w) cid of
        None \<Rightarrow> Throw TypeError w
      | Some c \<Rightarrow>
          (case runSelection (select_view w) arg c of
             None \<Rightarrow> Throw TypeError w
           | Some c' \<Rightarrow> Return () (w\<lparr>components := (components w)[cid := c']\<rparr>)))"




definition componentWillUnmount :: "nat \<Rightarrow> world \<Rightarrow> unit outcome" where
  "componentWillUnmount cid w =
     (case nth_opt (components w) cid of
        None \<Rightarrow> Throw TypeError w
      | Some c \<Rightarrow>
          (case ws_unsubscribe c of
             None \<Rightarrow> Throw TypeError w
           | Some f \<Rightarrow> Return () (unsubscribe f w)))"

section \<open>Dispatch and notification\<close>

text \<open>
  A listener may dispatch, and the dispatch notifies the listeners again, so the calls
  nest without a bound known in advance: the functions take the number of nested calls
  they may make, and \<open>None\<close> is the call that does not return within it. An exception
  leaves the state as it was when it was raised.
\<close>

definition bound_action :: "string \<Rightarrow> string \<Rightarrow> world \<Rightarrow> (nat \<times> action_creator) option" where
  "bound_action reducerKey actionName w =
     (case actions w reducerKey of
        None \<Rightarrow> None
      | Some bound \<Rightarrow>
          (case bound actionName of
             None \<Rightarrow> None
           | Some (store, act) \<Rightarrow>
               (case store of None \<Rightarrow> None | Some sid \<Rightarrow> Some (sid, act))))"

definition reduce_store :: "nat \<Rightarrow> jsval \<Rightarrow> redux_store \<Rightarrow> world \<Rightarrow> world" where
  "reduce_store sid action st w =
     w\<lparr>heap := (heap w)[sid := st\<lparr>currentState := currentReducer st (currentState st) action\<rparr>],
       dispatched := dispatched w @ [(sid, action)]\<rparr>"

fun call_fn :: "nat \<Rightarrow> fn \<Rightarrow> res list \<Rightarrow> world \<Rightarrow> unit outcome option"
  and forEach :: "nat \<Rightarrow> fn list \<Rightarrow> world \<Rightarrow> unit outcome option"
  and store_dispatch :: "nat \<Rightarrow> nat \<Rightarrow> jsval \<Rightarrow> world \<Rightarrow> unit outcome option"
where
  "call_fn 0 f args w = None"
| "call_fn (Suc n) (Callback (External c)) args w =
     Some (Return () (w\<lparr>calls := calls w @ [(c, args)]\<rparr>))"
| "call_fn (Suc n) (Callback CollapseSidebar) args w =
     (let isSmall = (case args of [] \<Rightarrow> Val Undefined | a # _ \<Rightarrow> a)
      in if truthy_res isSmall then
           (case bound_action ''core/edit-post'' ''closeGeneralSidebar'' w of
              None \<Rightarrow> Some (Throw TypeError w)
            | Some (sid, act) \<Rightarrow> store_dispatch n sid (act []) w)
         else Some (Return () w))"
| "call_fn (Suc n) (Callback (RunSelection cid)) args w =
     Some (runSelection_call cid
       (case args of [] \<Rightarrow> None | a # _ \<Rightarrow> if a = Val Undefined then None else Some (Argument a)) w)"
| "call_fn (Suc n) (Wrapper lid) args w =
     (case nth_opt (closures w) lid of
        None \<Rightarrow> Some (Throw TypeError w)
      | Some (When sid ifTrueFn) \<Rightarrow>
          (case getState w sid of
             None \<Rightarrow> Some (Throw TypeError w)
           | Some state \<Rightarrow>
               (let isOk = (state \<noteq> captured w lid);
                    w' = w\<lparr>captured := (captured w)(lid := state)\<rparr>
                in if isOk then call_fn n ifTrueFn args w' else Some (Return () w')))
      | Some (WhenWith reducerKey selectorName selectorArgs ifTrueFn) \<Rightarrow>
          (case select_call reducerKey selectorName selectorArgs w of
             Throw e w' \<Rightarrow> Some (Throw e w')
           | Return result w' \<Rightarrow>
               (let isOk = differs result (captured_result w' lid);
                    w'' = w'\<lparr>captured_result := (captured_result w')(lid := result)\<rparr>
                in if isOk then call_fn n ifTrueFn [result] w'' else Some (Return () w''))))"
| "forEach n [] w = Some (Return () w)"
| "forEach n (f # fs) w =
     (case call_fn n f [] w of
        None \<Rightarrow> None
      | Some (Throw e w') \<Rightarrow> Some (Throw e w')
      | Some (Return u w') \<Rightarrow> forEach n fs w')"
| "store_dispatch n sid action w =
     (case nth_opt (heap w) sid of
        None \<Rightarrow> Some (Throw TypeError w)
      | Some st \<Rightarrow> (let w' = reduce_store sid action st w in forEach n (listeners w') w'))"

definition globalListener :: "nat \<Rightarrow> world \<Rightarrow> unit outcome option" where
  "globalListener n w = forEach n (listeners w) w"

definition dispatch_call :: "nat \<Rightarrow> string \<Rightarrow> string \<Rightarrow> jsval list \<Rightarrow> world \<Rightarrow> unit outcome option" where
  "dispatch_call n reducerKey actionName args w =
     (case bound_action reducerKey actionName w of
        None \<Rightarrow> Some (Throw TypeError w)
      | Some (sid, act) \<Rightarrow> store_dispatch n sid (act args) w)"

section \<open>Bound actions\<close>

text \<open>\<open>dispatch(reducerKey)\<close> returns the object of bound action creators.\<close>

definition dispatch :: "string \<Rightarrow> world \<Rightarrow> (string \<rightharpoonup> nat option \<times> action_creator) option" where
  "dispatch reducerKey w = actions w reducerKey"

section \<open>ifCondition\<close>

text \<open>
  The enhanced component returns \<open>null\<close> or the element of the wrapped component with
  the props it is given. Here a props object is the map from its property names to
  their values.
\<close>

type_synonym obj = "string \<rightharpoonup> jsval"

datatype rendered = RenderNull | Element obj

definition ifCondition :: "(obj \<Rightarrow> jsval) \<Rightarrow> string option \<Rightarrow> obj \<Rightarrow> rendered" where
  "ifCondition predicate propName props =
     (let isOk = predicate props
      in if \<not> truthy_str propName \<and> \<not> truthy isOk then RenderNull
         else Element (case (if truthy_str propName then propName else None) of
                         None \<Rightarrow> props
                       | Some name \<Rightarrow> props(name \<mapsto> isOk)))"

definition never :: "obj \<Rightarrow> jsval" where
  "never props = JBool False"

section \<open>PreserveScrollInReorder\<close>

text \<open>
  The document is read through \<open>dom.getBlockDOMNode\<close> and \<open>dom.getScrollContainer\<close>:
  \<open>blockTop uid\<close> is the top of the bounding rectangle of the block's node when the node
  exists, and \<open>scrollTop\<close> is the scroll offset of the scroll container when there is
  one. Offsets are numbers; a number is falsy when it is zero.
\<close>

record reorder_props =
  blockOrder :: jsval
  selectionStart :: "string option"

record dom =
  blockTop :: "string \<rightharpoonup> real"
  scrollTop :: "real option"

record preserve_scroll =
  psr_props :: reorder_props
  previousOffset :: "real option"

definition truthy_num :: "real option \<Rightarrow> bool" where
  "truthy_num x = (case x of None \<Rightarrow> False | Some v \<Rightarrow> v \<noteq> 0)"

definition setPreviousOffset :: "string \<Rightarrow> dom \<Rightarrow> preserve_scroll \<Rightarrow> preserve_scroll" where
  "setPreviousOffset uid d c =
     (case blockTop d uid of
        None \<Rightarrow> c
      | Some offset \<Rightarrow> c\<lparr>previousOffset := Some offset\<rparr>)"

definition componentWillUpdate :: "reorder_props \<Rightarrow> dom \<Rightarrow> preserve_scroll \<Rightarrow> preserve_scroll" where
  "componentWillUpdate nextProps d c =
     (if blockOrder nextProps \<noteq> blockOrder (psr_props c) \<and> truthy_str (selectionStart nextProps)
      then (case selectionStart nextProps of None \<Rightarrow> c | Some uid \<Rightarrow> setPreviousOffset uid d c)
      else c)"

definition restorePreviousOffset :: "dom \<Rightarrow> preserve_scroll \<Rightarrow> dom \<times> preserve_scroll" where
  "restorePreviousOffset d c =
     (let blockNode = (case selectionStart (psr_props c) of None \<Rightarrow> None | Some uid \<Rightarrow> blockTop d uid);
          d' = (case (scrollTop d, blockNode, previousOffset c) of
                  (Some st, Some offset, Some prev) \<Rightarrow> d\<lparr>scrollTop := Some (st + offset - prev)\<rparr>
                | _ \<Rightarrow> d)
      in (d', c\<lparr>previousOffset := None\<rparr>))"

definition componentDidUpdate :: "dom \<Rightarrow> preserve_scroll \<Rightarrow> dom \<times> preserve_scroll" where
  "componentDidUpdate d c =
     (if truthy_num (previousOffset c) then restorePreviousOffset d c else (d, c))"

text \<open>
  One update of the component: \<open>componentWillUpdate\<close> sees the document before the
  render, then the props are replaced, then \<open>componentDidUpdate\<close> sees the document
  after the render.
\<close>

definition update :: "reorder_props \<Rightarrow> dom \<Rightarrow> dom \<Rightarrow> preserve_scroll \<Rightarrow> dom \<times> preserve_scroll" where
  "update nextProps before after c =
     componentDidUpdate after ((componentWillUpdate nextProps before c)\<lparr>psr_props := nextProps\<rparr>)"

section \<open>Subscriptions of external functions\<close>

text \<open>
  The listeners that \<open>subscribe\<close> creates for an external function: the function itself,
  a \<open>when\<close> wrapper of it on an existing store, or a \<open>whenWith\<close> wrapper of such a
  \<open>when\<close> wrapper whose selector is registered and bound to an existing store. \<open>P\<close>
  says which external functions are meant.
\<close>

fun plain_callback :: "(nat \<Rightarrow> bool) \<Rightarrow> callback \<Rightarrow> bool" where
  "plain_callback P (External c) = P c"
| "plain_callback P CollapseSidebar = False"
| "plain_callback P (RunSelection cid) = False"

definition plain_when :: "(nat \<Rightarrow> bool) \<Rightarrow> world \<Rightarrow> nat \<Rightarrow> bool" where
  "plain_when P w i =
     (case nth_opt (closures w) i of
        Some (When sid (Callback cb)) \<Rightarrow> sid < length (heap w) \<and> plain_callback P cb
      | _ \<Rightarrow> False)"

definition bound_selector :: "world \<Rightarrow> string \<Rightarrow> string \<Rightarrow> (nat \<times> selector) option" where
  "bound_selector w reducerKey selectorName =
     (case selectors w reducerKey of
        None \<Rightarrow> None
      | Some bound \<Rightarrow>
          (case bound selectorName of
             None \<Rightarrow> None
           | Some (store, sel) \<Rightarrow>
               (case store of
                  None \<Rightarrow> None
                | Some sid \<Rightarrow> if sid < length (heap w) then Some (sid, sel) else None)))"

fun plain :: "(nat \<Rightarrow> bool) \<Rightarrow> world \<Rightarrow> fn \<Rightarrow> bool" where
  "plain P w (Callback cb) = plain_callback P cb"
| "plain P w (Wrapper i) =
     (case nth_opt (closures w) i of
        None \<Rightarrow> False
      | Some (When sid g) \<Rightarrow> plain_when P w i
      | Some (WhenWith k nm as g) \<Rightarrow>
          bound_selector w k nm \<noteq> None \<and>
          (case g of Wrapper j \<Rightarrow> plain_when P w j | Callback cb \<Rightarrow> False))"

text \<open>
  \<open>frame P w w'\<close>: what running subscriptions of the external functions in \<open>P\<close> may
  change, namely their own variables and the record of their invocations. \<open>keeps w w'\<close>:
  the wrappers, the number of stores and the registered selectors are the same.
\<close>

definition frame :: "(nat \<Rightarrow> bool) \<Rightarrow> world \<Rightarrow> world \<Rightarrow> bool" where
  "frame P w w' =
     (heap w' = heap w \<and> stores w' = stores w \<and> selectors w' = selectors w \<and>
      actions w' = actions w \<and> listeners w' = listeners w \<and> closures w' = closures w \<and>
      dispatched w' = dispatched w \<and> components w' = components w \<and>
      (\<forall>i. \<not> plain P w (Wrapper i) \<longrightarrow>
         captured w' i = captured w i \<and> captured_result w' i = captured_result w i) \<and>
      filter (\<lambda>e. \<not> P (fst e)) (calls w') = filter (\<lambda>e. \<not> P (fst e)) (calls w))"

definition keeps :: "world \<Rightarrow> world \<Rightarrow> bool" where
  "keeps w w' = (closures w' = closures w \<and> length (heap w') = length (heap w) \<and>
     selectors w' = selectors w)"

text \<open>The invocations of the external function \<open>c\<close> recorded so far.\<close>

definition calls_of :: "nat \<Rightarrow> world \<Rightarrow> (nat \<times> res list) list" where
  "calls_of c w = filter (\<lambda>e. fst e = c) (calls w)"







section \<open>Example registry\<close>

text \<open>
  A store counting the \<open>inc\<close> actions it receives, with a selector for the parity of the
  count and an action creator, used to run the definitions on concrete inputs.
\<close>

definition counter :: reducer where
  "counter state action =
     (case state of
        JNum n \<Rightarrow> (if action = JStr ''inc'' then JNum (n + 1) else JNum n)
      | _ \<Rightarrow> JNum 0)"

definition isOdd :: selector where
  "isOdd state args = (case state of JNum n \<Rightarrow> Val (JBool (odd n)) | _ \<Rightarrow> Val Undefined)"

definition inc :: action_creator where
  "inc args = JStr ''inc''"

definition counter_options :: options where
  "counter_options =
     \<lparr>opt_reducer = Some counter, opt_actions = Some [''inc'' \<mapsto> inc],
      opt_selectors = Some [''isOdd'' \<mapsto> isOdd]\<rparr>"

definition no_options :: options where
  "no_options = \<lparr>opt_reducer = None, opt_actions = Some [''inc'' \<mapsto> inc], opt_selectors = None\<rparr>"

definition one_store :: world where
  "one_store = world_of (registerStore ''a'' counter_options initial_world)"

text \<open>
  A second store, subscriptions of the external function 7 on the first one, a registry
  whose first store is registered under the empty string, and the two stores of the
  edit-post wiring: the viewport store holds the width, \<open>isViewportMatch\<close> tests it
  against the medium breakpoint, and the edit-post store holds whether the sidebar is open.
\<close>

definition two_stores :: world where
  "two_stores = world_of (registerStore ''b'' counter_options one_store)"

definition key_subscribed :: world where
  "key_subscribed = world_of (subscribe (Some ''a'') None (External 7) two_stores)"

definition empty_key_stores :: world where
  "empty_key_stores =
     world_of (registerStore ''b'' counter_options
       (world_of (registerStore [] counter_options initial_world)))"























section \<open>Example components\<close>








definition reordered :: reorder_props where
  "reordered = \<lparr>blockOrder = JRef 2, selectionStart = Some ''a''\<rparr>"

definition before_reorder :: dom where
  "before_reorder = \<lparr>blockTop = [''a'' \<mapsto> 0], scrollTop = Some 100\<rparr>"

definition after_reorder :: dom where
  "after_reorder = \<lparr>blockTop = [''a'' \<mapsto> 40], scrollTop = Some 100\<rparr>"

definition scroller :: preserve_scroll where
  "scroller = \<lparr>psr_props = \<lparr>blockOrder = JRef 1, selectionStart = Some ''a''\<rparr>, previousOffset = None\<rparr>"

section \<open>Lists\<close>

lemma nth_opt_eq: "nth_opt xs i = (if i < length xs then Some (xs ! i) else None)"
  by (induction xs i rule: nth_opt.induct) auto

lemma nth_opt_append_length: "nth_opt (xs @ [x]) (length xs) = Some x"
  by (simp add: nth_opt_eq)


section \<open>Notification of subscriptions of external functions\<close>

text \<open>
  One call of a wrapper, the frame of a listener that is a subscription of an external
  function, and the dispatches of a registry in which one listener is singled out among
  such subscriptions. An external function is taken not to call back into the module.
\<close>

lemma when_call:
  assumes "nth_opt (closures w) i = Some (When sid g)" and "getState w sid = Some s"
  shows "call_fn (Suc n) (Wrapper i) args w =
     (if s \<noteq> captured w i then call_fn n g args (w\<lparr>captured := (captured w)(i := s)\<rparr>)
      else Some (Return () (w\<lparr>captured := (captured w)(i := s)\<rparr>)))"
  using assms by (simp add: Let_def)

lemma whenWith_call:
  assumes "nth_opt (closures w) i = Some (WhenWith k nm sa g)"
    and "select_call k nm sa w = Return r w"
  shows "call_fn (Suc n) (Wrapper i) args w =
     (if differs r (captured_result w i)
      then call_fn n g [r] (w\<lparr>captured_result := (captured_result w)(i := r)\<rparr>)
      else Some (Return () (w\<lparr>captured_result := (captured_result w)(i := r)\<rparr>)))"
  using assms by (simp add: Let_def)

lemma select_call_bound:
  assumes "bound_selector w k nm = Some (sid, raw)"
  shows "\<exists>s. getState w sid = Some s \<and> select_call k nm sa w = Return (raw s sa) w"
  using assms
  by (auto simp add: bound_selector_def select_call_def select_def getState_def nth_opt_eq
      split: option.splits if_splits)

lemma plain_when_cong:
  assumes "closures w' = closures w" and "length (heap w') = length (heap w)"
  shows "plain_when P w' i = plain_when P w i"
  using assms by (simp add: plain_when_def split: option.splits closure.splits fn.splits)

lemma bound_selector_cong:
  assumes "selectors w' = selectors w" and "length (heap w') = length (heap w)"
  shows "bound_selector w' k nm = bound_selector w k nm"
  using assms by (simp add: bound_selector_def split: option.splits)

lemma plain_cong:
  assumes "closures w' = closures w" and "length (heap w') = length (heap w)"
    and "selectors w' = selectors w"
  shows "plain P w' f = plain P w f"
proof (cases f)
  case (Callback cb)
  then show ?thesis by simp
next
  case (Wrapper i)
  have 1: "plain_when P w' = plain_when P w"
    by (rule ext) (rule plain_when_cong [OF assms(1,2)])
  have 2: "bound_selector w' = bound_selector w"
    by (rule ext, rule ext) (rule bound_selector_cong [OF assms(3,2)])
  show ?thesis
    unfolding Wrapper plain.simps 1 2 assms(1) ..
qed

lemma frame_refl: "frame P w w"
  by (simp add: frame_def)

lemma frame_plain: "frame P w w' \<Longrightarrow> plain P w' f = plain P w f"
  by (rule plain_cong) (simp_all add: frame_def)

lemma frame_trans:
  assumes "frame P w w'" and "frame P w' w''"
  shows "frame P w w''"
proof -
  have "\<And>i. plain P w' (Wrapper i) = plain P w (Wrapper i)"
    using assms(1) by (rule frame_plain)
  with assms show ?thesis
    unfolding frame_def by (simp del: plain.simps)
qed

lemma plain_when_plain: "plain_when P w i \<Longrightarrow> plain P w (Wrapper i)"
  by (auto simp add: plain_when_def split: option.splits closure.splits fn.splits)

lemma frame_captured:
  assumes "plain P w (Wrapper i)"
  shows "frame P w (w\<lparr>captured := (captured w)(i := v)\<rparr>)"
  using assms unfolding frame_def by (simp del: plain.simps)

lemma frame_captured_result:
  assumes "plain P w (Wrapper i)"
  shows "frame P w (w\<lparr>captured_result := (captured_result w)(i := v)\<rparr>)"
  using assms unfolding frame_def by (simp del: plain.simps)

lemma frame_external:
  assumes "P c"
  shows "frame P w (w\<lparr>calls := calls w @ [(c, args)]\<rparr>)"
  using assms unfolding frame_def by (simp del: plain.simps)

lemma plain_when_call:
  assumes "plain_when P w i"
  shows "\<exists>w'. call_fn (Suc (Suc n)) (Wrapper i) args w = Some (Return () w') \<and> frame P w w'"
proof -
  from assms obtain sid cb where cl: "nth_opt (closures w) i = Some (When sid (Callback cb))"
    and sid: "sid < length (heap w)" and "plain_callback P cb"
    by (auto simp add: plain_when_def split: option.splits closure.splits fn.splits)
  then obtain c where cb: "cb = External c" and P: "P c"
    by (cases cb) auto
  from sid obtain s where s: "getState w sid = Some s"
    by (auto simp add: getState_def nth_opt_eq)
  have pl: "plain P w (Wrapper i)" using assms by (rule plain_when_plain)
  let ?w1 = "w\<lparr>captured := (captured w)(i := s)\<rparr>"
  have f1: "frame P w ?w1" using pl by (rule frame_captured)
  have f2: "frame P ?w1 (?w1\<lparr>calls := calls ?w1 @ [(c, args)]\<rparr>)"
    using P by (rule frame_external)
  have "call_fn (Suc (Suc n)) (Wrapper i) args w =
     (if s \<noteq> captured w i then Some (Return () (?w1\<lparr>calls := calls ?w1 @ [(c, args)]\<rparr>))
      else Some (Return () ?w1))"
    unfolding when_call [OF cl s] cb by simp
  with f1 frame_trans [OF f1 f2] show ?thesis
    by (cases "s \<noteq> captured w i") auto
qed

lemma plain_call:
  assumes "plain P w f"
  shows "\<exists>w'. call_fn (Suc (Suc (Suc n))) f args w = Some (Return () w') \<and> frame P w w'"
proof (cases f)
  case (Callback cb)
  with assms obtain c where "cb = External c" "P c" by (cases cb) auto
  with Callback frame_external [of P c w args] show ?thesis by simp
next
  case (Wrapper i)
  show ?thesis
  proof (cases "nth_opt (closures w) i")
    case None
    with assms Wrapper show ?thesis by simp
  next
    case (Some cl)
    show ?thesis
    proof (cases cl)
      case (When sid g)
      with assms Wrapper Some have "plain_when P w i" by simp
      from plain_when_call [OF this, of "Suc n" args] Wrapper show ?thesis
        by simp
    next
      case (WhenWith k nm sa g)
      with assms Wrapper Some obtain j where g: "g = Wrapper j" and pj: "plain_when P w j"
        and b: "bound_selector w k nm \<noteq> None"
        by (cases g) auto
      from b obtain sid raw where "bound_selector w k nm = Some (sid, raw)" by auto
      from select_call_bound [OF this] obtain s where r: "select_call k nm sa w = Return (raw s sa) w"
        by blast
      have pi: "plain P w (Wrapper i)" using assms Wrapper by simp
      let ?w1 = "w\<lparr>captured_result := (captured_result w)(i := raw s sa)\<rparr>"
      have f1: "frame P w ?w1" using pi by (rule frame_captured_result)
      have "plain_when P ?w1 j" using pj plain_when_cong [of ?w1 w P j] by simp
      from plain_when_call [OF this, of n "[raw s sa]"]
      obtain w'' where c: "call_fn (Suc (Suc n)) (Wrapper j) [raw s sa] ?w1 = Some (Return () w'')"
        and f2: "frame P ?w1 w''"
        by blast
      have "call_fn (Suc (Suc (Suc n))) (Wrapper i) args w =
        (if differs (raw s sa) (captured_result w i) then Some (Return () w'') else Some (Return () ?w1))"
        unfolding whenWith_call [OF Some [unfolded WhenWith] r] g c by simp
      with f1 frame_trans [OF f1 f2] Wrapper show ?thesis
        by (cases "differs (raw s sa) (captured_result w i)") auto
    qed
  qed
qed

lemma forEach_plain:
  assumes "list_all (plain P w) fs"
  shows "\<exists>w'. forEach (Suc (Suc (Suc n))) fs w = Some (Return () w') \<and> frame P w w'"
  using assms
proof (induction fs arbitrary: w)
  case Nil
  then show ?case by (simp add: frame_refl)
next
  case (Cons f fs)
  then have "plain P w f" by simp
  from plain_call [OF this, of n "[]"] obtain w1
    where c: "call_fn (Suc (Suc (Suc n))) f [] w = Some (Return () w1)" and f1: "frame P w w1"
    by blast
  have "plain P w1 = plain P w"
    by (rule ext) (rule frame_plain [OF f1])
  with Cons.prems have "list_all (plain P w1) fs"
    by simp
  from Cons.IH [OF this] obtain w2
    where c2: "forEach (Suc (Suc (Suc n))) fs w1 = Some (Return () w2)" and f2: "frame P w1 w2"
    by blast
  from c c2 frame_trans [OF f1 f2] show ?case
    by simp
qed


lemma keeps_plain: "keeps w w' \<Longrightarrow> plain P w' = plain P w"
  by (rule ext, rule plain_cong) (simp_all add: keeps_def)

lemma frame_keeps: "frame P w w' \<Longrightarrow> keeps w w'"
  by (simp add: frame_def keeps_def)


lemma frame_calls_of: "frame (\<lambda>c'. c' \<noteq> c) w w' \<Longrightarrow> calls_of c w' = calls_of c w"
  by (simp add: frame_def calls_of_def)


lemma store_dispatch_eq:
  assumes "nth_opt (heap w) sid = Some st"
  shows "store_dispatch n sid a w = forEach n (listeners w) (reduce_store sid a st w)"
  using assms by (simp add: reduce_store_def)

lemma reduce_store_keeps: "keeps w (reduce_store sid a st w)"
  by (simp add: keeps_def reduce_store_def)

lemma getState_reduce_store:
  assumes "nth_opt (heap w) sid' = Some st"
  shows "getState (reduce_store sid' a st w) sid =
    (if sid = sid' then Some (currentReducer st (currentState st) a) else getState w sid)"
  using assms by (auto simp add: getState_def reduce_store_def nth_opt_eq split: if_splits)

lemma frameD:
  assumes "frame P w w'"
  shows "heap w' = heap w" and "stores w' = stores w" and "selectors w' = selectors w"
    and "actions w' = actions w" and "listeners w' = listeners w"
    and "closures w' = closures w" and "dispatched w' = dispatched w"
    and "\<not> plain P w (Wrapper i) \<Longrightarrow> captured w' i = captured w i"
    and "\<not> plain P w (Wrapper i) \<Longrightarrow> captured_result w' i = captured_result w i"
    and "components w' = components w"
  using assms unfolding frame_def by (simp_all del: plain.simps)

lemma reduce_store_simps:
  "stores (reduce_store sid a st w) = stores w"
  "selectors (reduce_store sid a st w) = selectors w"
  "actions (reduce_store sid a st w) = actions w"
  "listeners (reduce_store sid a st w) = listeners w"
  "closures (reduce_store sid a st w) = closures w"
  "captured (reduce_store sid a st w) = captured w"
  "captured_result (reduce_store sid a st w) = captured_result w"
  "components (reduce_store sid a st w) = components w"
  "calls (reduce_store sid a st w) = calls w"
  "dispatched (reduce_store sid a st w) = dispatched w @ [(sid, a)]"
  "length (heap (reduce_store sid a st w)) = length (heap w)"
  by (simp_all add: reduce_store_def)

lemma getState_heap: "heap w' = heap w \<Longrightarrow> getState w' sid = getState w sid"
  by (simp add: getState_def)




















lemma plain_dispatch:
  assumes "list_all (plain P w) (listeners w)" and st: "nth_opt (heap w) sid' = Some st"
  shows "\<exists>w'. store_dispatch (Suc (Suc (Suc n))) sid' a w = Some (Return () w') \<and>
     frame P (reduce_store sid' a st w) w'"
proof -
  have "plain P (reduce_store sid' a st w) = plain P w"
    by (rule keeps_plain) (rule reduce_store_keeps)
  with assms(1) have "list_all (plain P (reduce_store sid' a st w)) (listeners w)"
    by simp
  from forEach_plain [OF this, of n] show ?thesis
    unfolding store_dispatch_eq [OF st] by (simp add: reduce_store_simps)
qed

lemma subscribe_pushes:
  assumes "subscribe rk sel cb w = Return f w1"
  shows "listeners w1 = listeners w @ [f]"
  using assms
  by (auto simp add: subscribe_def Let_def split: option.splits if_splits prod.splits outcome.splits)

lemma subscribe_bare:
  "subscribe None None cb w = Return (Callback cb) (w\<lparr>listeners := listeners w @ [Callback cb]\<rparr>)"
  by (simp add: subscribe_def truthy_str_def)

lemma unsubscribe_simps:
  "listeners (unsubscribe f w) = filter (\<lambda>g. g \<noteq> f) (listeners w)"
  "heap (unsubscribe f w) = heap w" "closures (unsubscribe f w) = closures w"
  "selectors (unsubscribe f w) = selectors w" "calls (unsubscribe f w) = calls w"
  "captured (unsubscribe f w) = captured w"
  "captured_result (unsubscribe f w) = captured_result w"
  "components (unsubscribe f w) = components w"
  by (simp_all add: unsubscribe_def without_def)

text \<open>The three documented forms of a call of \<open>subscribe\<close>.\<close>

lemma subscribe_args_forms:
  "subscribe_args [Some (Listener l)] w = Some (subscribe None None l w)"
  "subscribe_args [Some (ReducerKey k), Some (Listener l)] w = Some (subscribe (Some k) None l w)"
  "subscribe_args [Some (ReducerKey k), Some (Selector spec), Some (Listener l)] w =
     Some (subscribe (Some k) (Some spec) l w)"
  by (simp_all add: subscribe_args_def splice_null_def)

section \<open>Empty keys and names, and functions subscribed as they are\<close>





section \<open>Components of withSelect\<close>









section \<open>The example registries\<close>

lemmas registry_defs = one_store_def two_stores_def empty_key_stores_def registerStore_def
  counter_options_def registerReducer_def registerActions_def registerSelectors_def
  initial_world_def createStore_def

lemma two_stores_eval:
  "stores two_stores ''a'' = Some 0" "stores two_stores ''b'' = Some (Suc 0)"
  "heap two_stores = [createStore counter, createStore counter]"
  "listeners two_stores = []" "closures two_stores = []" "calls two_stores = []"
  by (simp_all add: registry_defs)

lemma key_subscribed_eval:
  "key_subscribed = two_stores\<lparr>listeners := [Wrapper 0],
      closures := [When 0 (Callback (External 7))],
      captured := (captured two_stores)(0 := JNum 0)\<rparr>"
  by (simp add: key_subscribed_def subscribe_def truthy_str_def two_stores_eval getState_def
      createStore_def counter_def Let_def)

lemma key_subscribed_actions:
  "actions key_subscribed ''a'' = actions (registerActions ''a'' [''inc'' \<mapsto> inc] two_stores) ''a''"
  by (simp add: key_subscribed_eval registry_defs)





















section \<open>Runs of the example registries\<close>





section \<open>Properties of the program\<close>

subsection \<open>Subscription by reducer key\<close>




subsection \<open>Subscription by reducer key and selector\<close>




subsection \<open>registerStore\<close>

text \<open>
  C3: for every reducer key and every options object, \<open>registerStore\<close> throws a TypeError
  when \<open>options.reducer\<close> is absent, and the registry is then unchanged; when the reducer
  is present, \<open>registerStore\<close> returns the store object it registered under the key.
\<close>

theorem registerStore_reducer:
  "(opt_reducer opts = None \<longrightarrow> registerStore k opts w = Throw TypeError w) \<and>
   (\<forall>r. opt_reducer opts = Some r \<longrightarrow>
      (\<exists>w'. registerStore k opts w = Return (length (heap w)) w' \<and>
            stores w' k = Some (length (heap w)) \<and>
            nth_opt (heap w') (length (heap w)) = Some (createStore r)))"
  by (auto simp: registerStore_def registerReducer_def registerActions_def
      registerSelectors_def Let_def nth_opt_append_length split: option.splits)

theorem registerStore_reducer_witness:
  "opt_reducer no_options = None \<and>
   registerStore ''a'' no_options initial_world = Throw TypeError initial_world \<and>
   opt_reducer counter_options = Some counter \<and>
   (\<exists>w'. registerStore ''a'' counter_options initial_world = Return 0 w' \<and>
         stores w' ''a'' = Some 0 \<and> nth_opt (heap w') 0 = Some (createStore counter))"
  using registerStore_reducer [of no_options "''a''" initial_world]
    registerStore_reducer [of counter_options "''a''" initial_world]
  by (simp add: no_options_def counter_options_def initial_world_def)

subsection \<open>Bound selectors\<close>

text \<open>
  C4: for a reducer key with a store registered and then selectors registered under it,
  \<open>select(reducerKey)[selectorName](...args)\<close> returns what the raw selector returns on
  the store's current state followed by the arguments, in every later state of the store,
  and the call leaves the world, and so the store's state, as it was.
\<close>

theorem select_calls_raw_selector:
  assumes "stores w k = Some sid"
    and "newSelectors name = Some raw"
    and "selectors w' k = selectors (registerSelectors k newSelectors w) k"
    and "getState w' sid = Some state"
  shows "select_call k name args w' = Return (raw state args) w'"
  using assms by (simp add: select_call_def select_def registerSelectors_def)

theorem select_calls_raw_selector_witness:
  "stores one_store ''a'' = Some 0 \<and> [''isOdd'' \<mapsto> isOdd] ''isOdd'' = Some isOdd \<and>
   selectors one_store ''a'' = selectors (registerSelectors ''a'' [''isOdd'' \<mapsto> isOdd] one_store) ''a'' \<and>
   getState one_store 0 = Some (JNum 0) \<and>
   select_call ''a'' ''isOdd'' [] one_store = Return (Val (JBool False)) one_store"
proof -
  have 1: "stores one_store ''a'' = Some 0"
    by (simp add: one_store_def registerStore_def counter_options_def registerReducer_def
        registerActions_def registerSelectors_def initial_world_def)
  have 2: "[''isOdd'' \<mapsto> isOdd] ''isOdd'' = Some isOdd"
    by simp
  have 3: "selectors one_store ''a'' =
      selectors (registerSelectors ''a'' [''isOdd'' \<mapsto> isOdd] one_store) ''a''"
    using 1 by (simp add: one_store_def registerStore_def counter_options_def registerReducer_def
        registerActions_def registerSelectors_def initial_world_def)
  have 4: "getState one_store 0 = Some (JNum 0)"
    by (simp add: one_store_def registerStore_def counter_options_def registerReducer_def
        registerActions_def registerSelectors_def initial_world_def getState_def createStore_def
        counter_def)
  have "isOdd (JNum 0) [] = Val (JBool False)"
    by (simp add: isOdd_def)
  with select_calls_raw_selector [OF 1 2 3 4, of "[]"] 1 2 3 4 show ?thesis
    by simp
qed

subsection \<open>Bound actions\<close>

text \<open>
  C5: for a reducer key with a store registered and then actions registered under it,
  \<open>dispatch(reducerKey)[actionName](...args)\<close> dispatches to that store the action the
  raw action creator produces from the arguments: the store's next state is its reducer
  applied to the current state and that action, and the listeners are then notified of
  it. When the listeners are subscriptions of external functions the call returns, and
  the store holds that next state.
\<close>

theorem dispatch_calls_raw_action:
  assumes "stores w k = Some sid"
    and "newActions name = Some creator"
    and "actions w' k = actions (registerActions k newActions w) k"
    and "nth_opt (heap w') sid = Some st"
  shows "dispatch_call n k name args w' =
           globalListener n (reduce_store sid (creator args) st w') \<and>
         getState (reduce_store sid (creator args) st w') sid =
           Some (currentReducer st (currentState st) (creator args)) \<and>
         dispatched (reduce_store sid (creator args) st w') = dispatched w' @ [(sid, creator args)] \<and>
         (list_all (plain (\<lambda>c. True) w') (listeners w') \<longrightarrow>
            (\<exists>w''. dispatch_call (Suc (Suc (Suc n))) k name args w' = Some (Return () w'') \<and>
                   heap w'' = heap (reduce_store sid (creator args) st w') \<and>
                   dispatched w'' = dispatched w' @ [(sid, creator args)]))"
proof -
  have b: "bound_action k name w' = Some (sid, creator)"
    using assms(1-3) by (simp add: bound_action_def registerActions_def)
  have d: "dispatch_call m k name args w' = store_dispatch m sid (creator args) w'" for m
    by (simp add: dispatch_call_def b del: store_dispatch.simps)
  have 1: "dispatch_call n k name args w' =
      globalListener n (reduce_store sid (creator args) st w')"
    unfolding d store_dispatch_eq [OF assms(4)] globalListener_def
    by (simp add: reduce_store_simps)
  have 2: "getState (reduce_store sid (creator args) st w') sid =
      Some (currentReducer st (currentState st) (creator args))"
    using getState_reduce_store [OF assms(4), of "creator args" sid] by simp
  have 3: "\<exists>w''. dispatch_call (Suc (Suc (Suc n))) k name args w' = Some (Return () w'') \<and>
      heap w'' = heap (reduce_store sid (creator args) st w') \<and>
      dispatched w'' = dispatched w' @ [(sid, creator args)]"
    if "list_all (plain (\<lambda>c. True) w') (listeners w')"
  proof -
    from plain_dispatch [OF that assms(4), of n "creator args"] obtain w''
      where r: "store_dispatch (Suc (Suc (Suc n))) sid (creator args) w' = Some (Return () w'')"
        and f: "frame (\<lambda>c. True) (reduce_store sid (creator args) st w') w''"
      by blast
    from r frameD(1,7) [OF f] show ?thesis
      unfolding d by (simp add: reduce_store_simps del: store_dispatch.simps)
  qed
  from 1 2 3 show ?thesis
    by (simp add: reduce_store_simps)
qed

theorem dispatch_calls_raw_action_witness:
  "stores two_stores ''a'' = Some 0 \<and> [''inc'' \<mapsto> inc] ''inc'' = Some inc \<and>
   actions key_subscribed ''a'' = actions (registerActions ''a'' [''inc'' \<mapsto> inc] two_stores) ''a'' \<and>
   nth_opt (heap key_subscribed) 0 = Some (createStore counter) \<and>
   list_all (plain (\<lambda>c. True) key_subscribed) (listeners key_subscribed) \<and>
   getState key_subscribed 0 = Some (JNum 0) \<and>
   (\<exists>w''. dispatch_call (Suc (Suc (Suc 0))) ''a'' ''inc'' [] key_subscribed = Some (Return () w'') \<and>
          getState w'' 0 = Some (JNum 1) \<and> dispatched w'' = [(0, JStr ''inc'')])"
proof -
  have 1: "stores two_stores ''a'' = Some 0"
    by (simp add: two_stores_eval)
  have 2: "[''inc'' \<mapsto> inc] ''inc'' = Some inc"
    by simp
  have 4: "nth_opt (heap key_subscribed) 0 = Some (createStore counter)"
    by (simp add: key_subscribed_eval two_stores_eval)
  have 5: "list_all (plain (\<lambda>c. True) key_subscribed) (listeners key_subscribed)"
    by (simp add: key_subscribed_eval two_stores_eval plain_when_def)
  have 6: "getState key_subscribed 0 = Some (JNum 0)"
    by (simp add: getState_def 4 createStore_def counter_def)
  have 7: "dispatched key_subscribed = []"
    by (simp add: key_subscribed_eval registry_defs)
  from dispatch_calls_raw_action [OF 1 2 key_subscribed_actions 4, of 0 "[]"] 5
  obtain w'' where r: "dispatch_call (Suc (Suc (Suc 0))) ''a'' ''inc'' [] key_subscribed = Some (Return () w'')"
    and h: "heap w'' = heap (reduce_store 0 (inc []) (createStore counter) key_subscribed)"
    and g: "getState (reduce_store 0 (inc []) (createStore counter) key_subscribed) 0 =
           Some (currentReducer (createStore counter) (currentState (createStore counter)) (inc []))"
    and d: "dispatched w'' = dispatched key_subscribed @ [(0, inc [])]"
    by blast
  have "getState w'' 0 = Some (JNum 1)"
    using getState_heap [OF h, of 0] g by (simp add: createStore_def counter_def inc_def)
  moreover have "dispatched w'' = [(0, JStr ''inc'')]"
    using d by (simp add: 7 inc_def)
  ultimately show ?thesis
    using 1 2 key_subscribed_actions 4 5 6 r by blast
qed

subsection \<open>withSelect\<close>




subsection \<open>The edit-post store wiring\<close>



subsection \<open>PreserveScrollInReorder\<close>

text \<open>
  C8: an update in which the block order changes while the selected block's node exists
  records the block's top offset; here the recorded offset is 0, the block is 40 lower
  after the update and a scroll container exists, and \<open>scrollTop\<close> stays at 100 where
  adding the difference gives 140: \<open>componentDidUpdate\<close> takes the recorded 0 for no
  record, and keeps it.
\<close>

theorem preserve_scroll_offset_zero:
  "blockOrder reordered \<noteq> blockOrder (psr_props scroller) \<and>
   selectionStart reordered = Some ''a'' \<and>
   blockTop before_reorder ''a'' = Some 0 \<and>
   blockTop after_reorder ''a'' = Some 40 \<and>
   scrollTop after_reorder = Some 100 \<and>
   update reordered before_reorder after_reorder scroller =
     (after_reorder, \<lparr>psr_props = reordered, previousOffset = Some 0\<rparr>)"
  by (simp add: update_def componentWillUpdate_def componentDidUpdate_def setPreviousOffset_def
      truthy_str_def truthy_num_def reordered_def before_reorder_def after_reorder_def
      scroller_def)

text \<open>
  With a recorded offset other than 0 the update adds the difference of the offsets to
  \<open>scrollTop\<close> and forgets the record, and an update without a change of the block order
  or without a selection start leaves \<open>scrollTop\<close> alone. Between updates the recorded
  offset is absent or 0.
\<close>

lemma preserve_scroll_nonzero:
  assumes "\<not> truthy_num (previousOffset c)"
  shows "(blockOrder nextProps \<noteq> blockOrder (psr_props c) \<longrightarrow>
            selectionStart nextProps = Some uid \<longrightarrow> uid \<noteq> [] \<longrightarrow>
            blockTop before uid = Some prev \<longrightarrow> prev \<noteq> 0 \<longrightarrow>
            scrollTop after = Some st \<longrightarrow> blockTop after uid = Some new \<longrightarrow>
            update nextProps before after c =
              (after\<lparr>scrollTop := Some (st + new - prev)\<rparr>,
               \<lparr>psr_props = nextProps, previousOffset = None\<rparr>)) \<and>
         (blockOrder nextProps = blockOrder (psr_props c) \<or>
            \<not> truthy_str (selectionStart nextProps) \<longrightarrow>
            fst (update nextProps before after c) = after) \<and>
         \<not> truthy_num (previousOffset (snd (update nextProps before after c)))"
  using assms
  by (auto simp add: update_def componentWillUpdate_def componentDidUpdate_def
      setPreviousOffset_def restorePreviousOffset_def truthy_str_def truthy_num_def
      split: option.splits)

subsection \<open>Unsubscription\<close>

text \<open>
  C9: \<open>subscribe\<close> returns the function reference it pushed at the end of the listener
  list, and the returned \<open>unsubscribe\<close>, whenever it is called, removes every entry
  equal to that reference and keeps the other entries in their order, changing nothing
  else. A function subscribed twice without a reducer key is pushed twice as itself, and
  one \<open>unsubscribe\<close> removes both entries. After it, when the remaining listeners are
  subscriptions of other external functions, every dispatch returns without an invocation
  of the subscription's function, and leaves the listener list as it is.
\<close>

theorem unsubscribe_removes_listener:
  "(subscribe rk sel cb w0 = Return f0 w1 \<longrightarrow> listeners w1 = listeners w0 @ [f0]) \<and>
   listeners (unsubscribe f w) = filter (\<lambda>g. g \<noteq> f) (listeners w) \<and>
   (unsubscribe f w)\<lparr>listeners := listeners w\<rparr> = w \<and>
   (\<exists>w2. subscribe None None cb (world_of (subscribe None None cb w)) = Return (Callback cb) w2 \<and>
         count_list (listeners w2) (Callback cb) = count_list (listeners w) (Callback cb) + 2 \<and>
         count_list (listeners (unsubscribe (Callback cb) w2)) (Callback cb) = 0) \<and>
   (list_all (\<lambda>g. g = f \<or> plain (\<lambda>c'. c' \<noteq> c) w g) (listeners w) \<and>
      nth_opt (heap w) sid' = Some st \<longrightarrow>
    (\<exists>w'. store_dispatch (Suc (Suc (Suc n))) sid' a (unsubscribe f w) = Some (Return () w') \<and>
          calls_of c w' = calls_of c w \<and>
          listeners w' = listeners (unsubscribe f w) \<and>
          list_all (plain (\<lambda>c'. c' \<noteq> c) w') (listeners w')))"
proof (intro conjI impI)
  assume "subscribe rk sel cb w0 = Return f0 w1"
  then show "listeners w1 = listeners w0 @ [f0]"
    by (rule subscribe_pushes)
next
  show "listeners (unsubscribe f w) = filter (\<lambda>g. g \<noteq> f) (listeners w)"
    by (simp add: unsubscribe_simps)
next
  show "(unsubscribe f w)\<lparr>listeners := listeners w\<rparr> = w"
    by (simp add: unsubscribe_def)
next
  show "\<exists>w2. subscribe None None cb (world_of (subscribe None None cb w)) = Return (Callback cb) w2 \<and>
         count_list (listeners w2) (Callback cb) = count_list (listeners w) (Callback cb) + 2 \<and>
         count_list (listeners (unsubscribe (Callback cb) w2)) (Callback cb) = 0"
    by (simp add: subscribe_bare unsubscribe_simps)
next
  let ?P = "\<lambda>c'. c' \<noteq> c"
  let ?u = "unsubscribe f w"
  assume a: "list_all (\<lambda>g. g = f \<or> plain ?P w g) (listeners w) \<and> nth_opt (heap w) sid' = Some st"
  have "plain ?P ?u = plain ?P w"
    by (rule keeps_plain) (simp add: keeps_def unsubscribe_simps)
  with a have pl: "list_all (plain ?P ?u) (listeners ?u)"
    by (auto simp add: unsubscribe_simps list_all_iff)
  from a have st: "nth_opt (heap ?u) sid' = Some st"
    by (simp add: unsubscribe_simps)
  from plain_dispatch [OF pl st, of n a] obtain w'
    where r: "store_dispatch (Suc (Suc (Suc n))) sid' a ?u = Some (Return () w')"
      and f: "frame ?P (reduce_store sid' a st ?u) w'"
    by blast
  have "calls_of c w' = calls_of c w"
    using frame_calls_of [OF f] by (simp add: calls_of_def reduce_store_simps unsubscribe_simps)
  moreover have l: "listeners w' = listeners ?u"
    by (simp add: frameD(5) [OF f] reduce_store_simps)
  moreover have "plain ?P w' = plain ?P (reduce_store sid' a st ?u)"
    by (rule keeps_plain) (rule frame_keeps [OF f])
  moreover have "plain ?P (reduce_store sid' a st ?u) = plain ?P ?u"
    by (rule keeps_plain) (rule reduce_store_keeps)
  ultimately have "calls_of c w' = calls_of c w" "listeners w' = listeners ?u"
    "plain ?P w' = plain ?P ?u"
    by simp_all
  moreover from this pl have "list_all (plain ?P w') (listeners w')"
    by simp
  ultimately show "\<exists>w'. store_dispatch (Suc (Suc (Suc n))) sid' a ?u = Some (Return () w') \<and>
          calls_of c w' = calls_of c w \<and>
          listeners w' = listeners ?u \<and>
          list_all (plain ?P w') (listeners w')"
    using r by blast
qed

theorem unsubscribe_removes_listener_witness:
  "subscribe (Some ''a'') None (External 7) two_stores = Return (Wrapper 0) key_subscribed \<and>
   listeners key_subscribed = listeners two_stores @ [Wrapper 0] \<and>
   listeners (unsubscribe (Wrapper 0) key_subscribed) = [] \<and>
   list_all (\<lambda>g. g = Wrapper 0 \<or> plain (\<lambda>c'. c' \<noteq> 7) key_subscribed g) (listeners key_subscribed) \<and>
   nth_opt (heap key_subscribed) 0 = Some (createStore counter) \<and>
   (\<exists>w'. store_dispatch (Suc (Suc (Suc 0))) 0 (JStr ''inc'') (unsubscribe (Wrapper 0) key_subscribed) =
           Some (Return () w') \<and>
         calls_of 7 w' = [] \<and> listeners w' = [])"
proof -
  have s: "subscribe (Some ''a'') None (External 7) two_stores = Return (Wrapper 0) key_subscribed"
    unfolding key_subscribed_eval
    by (simp add: subscribe_def truthy_str_def two_stores_eval getState_def createStore_def
        counter_def Let_def)
  have l: "listeners key_subscribed = [Wrapper 0]"
    by (simp add: key_subscribed_eval)
  have h: "list_all (\<lambda>g. g = Wrapper 0 \<or> plain (\<lambda>c'. c' \<noteq> 7) key_subscribed g) (listeners key_subscribed)"
    by (simp add: l)
  have n0: "nth_opt (heap key_subscribed) 0 = Some (createStore counter)"
    by (simp add: key_subscribed_eval two_stores_eval)
  have c0: "calls_of 7 key_subscribed = []"
    by (simp add: calls_of_def key_subscribed_eval two_stores_eval)
  note T = unsubscribe_removes_listener [of "Some ''a''" None "External 7" two_stores "Wrapper 0"
      key_subscribed "Wrapper 0" key_subscribed 7 0 "createStore counter" 0 "JStr ''inc''"]
  from T s have "listeners key_subscribed = listeners two_stores @ [Wrapper 0]"
    by blast
  moreover from T l have "listeners (unsubscribe (Wrapper 0) key_subscribed) = []"
    by simp
  moreover from T h n0 c0 l
  have "\<exists>w'. store_dispatch (Suc (Suc (Suc 0))) 0 (JStr ''inc'') (unsubscribe (Wrapper 0) key_subscribed) =
           Some (Return () w') \<and>
         calls_of 7 w' = [] \<and> listeners w' = []"
    by (auto simp del: store_dispatch.simps)
  ultimately show ?thesis
    using s h n0 by blast
qed

subsection \<open>ifCondition\<close>

text \<open>
  C10: the component made by \<open>ifCondition(predicate)\<close> renders nothing exactly when the
  predicate's result is falsy, and otherwise the wrapped component with the props it
  received; the component made by \<open>ifCondition(predicate, propName)\<close> with a non-empty
  prop name always renders the wrapped component, with the props it received and the
  predicate's result under the prop name. An empty prop name counts as none.
\<close>

theorem ifCondition_renders:
  "ifCondition predicate None props =
     (if truthy (predicate props) then Element props else RenderNull) \<and>
   (name \<noteq> [] \<longrightarrow>
      ifCondition predicate (Some name) props = Element (props(name \<mapsto> predicate props))) \<and>
   ifCondition predicate (Some []) props = ifCondition predicate None props"
  by (simp add: ifCondition_def truthy_str_def)

theorem ifCondition_renders_witness:
  "ifCondition never None Map.empty = RenderNull \<and> ''isOk'' \<noteq> [] \<and>
   ifCondition never (Some ''isOk'') Map.empty = Element [''isOk'' \<mapsto> JBool False]"
  using ifCondition_renders [of never Map.empty "''isOk''"]
  by (simp add: never_def)

text \<open>
  With the empty string as prop name and a predicate that fails, the component made by
  \<open>ifCondition(predicate, propName)\<close> renders nothing.
\<close>

theorem ifCondition_empty_propName:
  "ifCondition never (Some []) Map.empty = RenderNull \<and>
   ifCondition never (Some []) Map.empty \<noteq> Element (Map.empty([] \<mapsto> never Map.empty))"
  by (simp add: ifCondition_def never_def truthy_str_def)

end
